theory Spec2Isabelle
  imports Complex_Main
begin

section \<open>Python values and exceptions\<close>

text \<open>
  The repository is Python, so values that the code receives from JSON or from the
  language model keep their run-time shape. A JSON value is \<open>None\<close>, a bool, a
  number, a string, a list or a dict with string keys. A Python int and a finite
  Python float are real numbers here (\<open>PNum\<close>); the floats \<open>inf\<close>, \<open>-inf\<close> and
  \<open>nan\<close>, which \<open>json.loads\<close> and \<open>float\<close> can return, are values of their own.
  A string is the UTF-8 encoding of the Python \<open>str\<close>. A dict is an association list
  in insertion order with distinct keys. Console output (\<open>print\<close>) is not part of the
  model.
\<close>

datatype special = Infinity | MinusInfinity | NaN

datatype pyval =
    PNone
  | PBool bool
  | PNum real
  | PFloatSpecial special
  | PStr string
  | PList "pyval list"
  | PDict "(string \<times> pyval) list"

text \<open>
  The exception classes that the code raises or names in an \<open>except\<close> clause.
  \<open>JSONDecodeError\<close> is a subclass of \<open>ValueError\<close>; \<open>OtherException\<close> stands for
  any other subclass of \<open>Exception\<close> that a collaborator may raise.
\<close>

datatype exn =
    AttributeError
  | TypeError
  | ValueError
  | KeyError
  | IndexError
  | OverflowError
  | JSONDecodeError
  | RequestException
  | OtherException

text \<open>\<open>bool(v)\<close>: Python's truth value.\<close>

fun truthy :: "pyval \<Rightarrow> bool" where
  "truthy PNone = False"
| "truthy (PBool b) = b"
| "truthy (PNum r) = (r \<noteq> 0)"
| "truthy (PFloatSpecial f) = True"
| "truthy (PStr s) = (s \<noteq> [])"
| "truthy (PList xs) = (xs \<noteq> [])"
| "truthy (PDict kvs) = (kvs \<noteq> [])"

text \<open>
  \<open>obj.get(key, default)\<close>. Only a dict has the method \<open>get\<close>: on any other
  value the attribute lookup raises \<open>AttributeError\<close> before the key is looked at.
  On a dict an unhashable key (a list or a dict) raises \<open>TypeError\<close>; a key that is
  not a string is not among the string keys.
\<close>

definition dict_get :: "pyval \<Rightarrow> pyval \<Rightarrow> pyval \<Rightarrow> exn + pyval" where
  "dict_get obj key dflt =
     (case obj of
        PDict kvs \<Rightarrow>
          (case key of
             PStr k \<Rightarrow> Inr (case map_of kvs k of Some v \<Rightarrow> v | None \<Rightarrow> dflt)
           | PList _ \<Rightarrow> Inl TypeError
           | PDict _ \<Rightarrow> Inl TypeError
           | _ \<Rightarrow> Inr dflt)
      | _ \<Rightarrow> Inl AttributeError)"

section \<open>Data model\<close>

text \<open>
  \<open>polymarket/fetcher.py\<close>, dataclass \<open>Market\<close>. The text fields have their declared
  types. \<open>outcome_prices\<close> and \<open>outcomes\<close> are dynamic values: the fetcher stores a
  list of floats in \<open>outcome_prices\<close> and whatever JSON value the listing holds in
  \<open>outcomes\<close>, and \<open>portfolio.add_trade\<close> calls \<open>outcome_prices.get\<close>. \<open>volume\<close>
  and \<open>liquidity\<close> are floats: a \<open>PNum\<close> or a \<open>PFloatSpecial\<close>.
\<close>

record Market =
  m_id :: string
  m_question :: string
  m_slug :: string
  m_outcome_prices :: pyval
  m_outcomes :: pyval
  m_volume :: pyval
  m_liquidity :: pyval
  m_end_date :: "string option"
  m_description :: "string option"

text \<open>
  \<open>portfolio.py\<close>, TypedDict \<open>Trade\<close>. \<open>position\<close> is the analysis'
  \<open>recommended_position\<close> and \<open>entry_price\<close> a value of the odds dict, both as
  they are at run time.
\<close>

record Trade =
  t_id :: string
  t_question :: string
  t_position :: pyval
  t_entry_price :: pyval
  t_confidence :: int
  t_entry_date :: string
  t_status :: string
  t_exit_price :: "real option"
  t_pnl :: "real option"
  t_resolved_date :: "string option"

section \<open>Paper-trading ledger (portfolio.py)\<close>

text \<open>
  The ledger is the file \<open>portfolio.json\<close>: \<open>None\<close> when the file does not exist
  or does not parse, otherwise the list of trades it holds. Reading and writing the
  file are taken to succeed.
\<close>

type_synonym portfolio_file = "Trade list option"

definition load_portfolio :: "portfolio_file \<Rightarrow> Trade list" where
  "load_portfolio file = (case file of None \<Rightarrow> [] | Some trades \<Rightarrow> trades)"

definition save_portfolio :: "Trade list \<Rightarrow> portfolio_file" where
  "save_portfolio trades = Some trades"

text \<open>
  \<open>add_trade(market, position, confidence)\<close>; \<open>now\<close> is the string that
  \<open>datetime.now().isoformat()\<close> returns during the call. The result is what the
  call raises or returns, and the file afterwards.
\<close>

definition add_trade ::
  "Market \<Rightarrow> pyval \<Rightarrow> int \<Rightarrow> string \<Rightarrow> portfolio_file \<Rightarrow> (exn + unit) \<times> portfolio_file" where
  "add_trade market position confidence now file =
     (let trades = load_portfolio file in
      if list_ex (\<lambda>t. t_id t = m_id market) (filter (\<lambda>t. t_status t = ''open'') trades)
      then (Inr (), file)
      else
        (case dict_get (m_outcome_prices market) position (PNum (1 / 2)) of
           Inl e \<Rightarrow> (Inl e, file)
         | Inr entry_price \<Rightarrow>
             (Inr (),
              save_portfolio (trades @
                [\<lparr>t_id = m_id market,
                  t_question = m_question market,
                  t_position = position,
                  t_entry_price = entry_price,
                  t_confidence = confidence,
                  t_entry_date = now,
                  t_status = ''open'',
                  t_exit_price = None,
                  t_pnl = None,
                  t_resolved_date = None\<rparr>]))))"

text \<open>
  \<open>get_performance_summary()\<close>. The returned dict is an association list in the
  order of the dict display; counts and floats are numbers.
\<close>

definition get_performance_summary :: "portfolio_file \<Rightarrow> (string \<times> pyval) list" where
  "get_performance_summary file =
     (let trades = load_portfolio file;
          closed = filter (\<lambda>t. t_status t \<noteq> ''open'') trades;
          open_trades = filter (\<lambda>t. t_status t = ''open'') trades
      in
      if closed = [] then
        [(''total_trades'', PNum (of_nat (length trades))),
         (''open_trades'', PNum (of_nat (length open_trades))),
         (''closed_trades'', PNum 0),
         (''win_rate'', PNum 0),
         (''total_pnl'', PNum 0),
         (''roi'', PNum 0)]
      else
        (let wins = filter (\<lambda>t. t_status t = ''won'') closed;
             total_pnl = sum_list (concat (map (\<lambda>t. case t_pnl t of None \<Rightarrow> [] | Some p \<Rightarrow> [p]) closed));
             invested = sum_list (map (\<lambda>t. 1) closed)
         in
         [(''total_trades'', PNum (of_nat (length trades))),
          (''open_trades'', PNum (of_nat (length open_trades))),
          (''closed_trades'', PNum (of_nat (length closed))),
          (''wins'', PNum (of_nat (length wins))),
          (''win_rate'', PNum (of_nat (length wins) / of_nat (length closed) * 100)),
          (''total_pnl'', PNum total_pnl),
          (''roi'', PNum (if invested > 0 then total_pnl / invested * 100 else 0))]))"

section \<open>Analysis result (analysis/gemini_analyzer.py)\<close>

text \<open>
  Dataclass \<open>EdgeAnalysis\<close>. \<open>recommended_position\<close> is whatever JSON value the
  model's reply holds under that key (\<open>None\<close> when absent); \<open>current_odds\<close> is the
  dict from outcome name to percentage.
\<close>

record EdgeAnalysis =
  a_market_question :: string
  a_confidence_score :: int
  a_has_edge :: bool
  a_reasoning :: string
  a_recommended_position :: pyval
  a_current_odds :: "(string \<times> real) list"

text \<open>
  \<open>EdgeAnalysis.to_alert_message()\<close>. The text is not modelled: a message is
  represented by the analysis it is formatted from. What is modelled is when the
  formatting raises: the expression
  \<open>"... Recommended: " + self.recommended_position if self.recommended_position else ""\<close>
  concatenates a string with the recommended position whenever that is truthy, which
  raises \<open>TypeError\<close> unless it is a string.
\<close>

definition to_alert_message :: "EdgeAnalysis \<Rightarrow> exn + EdgeAnalysis" where
  "to_alert_message a =
     (if truthy (a_recommended_position a)
      then (case a_recommended_position a of PStr s \<Rightarrow> Inr a | _ \<Rightarrow> Inl TypeError)
      else Inr a)"

section \<open>Scan orchestrator (main.py, analyze_and_alert)\<close>

text \<open>
  \<open>config.MIN_CONFIDENCE_THRESHOLD\<close> is \<open>int(os.getenv("MIN_CONFIDENCE_THRESHOLD", "7"))\<close>:
  the integer of the environment variable when it is set, 7 otherwise.
\<close>

definition MIN_CONFIDENCE_THRESHOLD :: "int option \<Rightarrow> int" where
  "MIN_CONFIDENCE_THRESHOLD env = (case env of None \<Rightarrow> 7 | Some n \<Rightarrow> n)"

text \<open>
  The arguments and the environment of a run: the threshold, \<open>post_to_moltbook\<close>,
  \<open>ask_peer\<close>, and whether \<open>from moltbook.client import post_edge_alert, send_dm\<close>
  succeeds.
\<close>

record scan_config =
  c_threshold :: int
  c_post_to_moltbook :: bool
  c_ask_peer :: "string option"
  c_moltbook_import_ok :: bool

text \<open>
  The collaborators are outside the program. Each market of a batch comes with what
  they answer while it is processed: \<open>analyze_market\<close> raises or returns an analysis;
  \<open>datetime.now()\<close> gives a time stamp; \<open>telegram_bot.send_alert\<close> raises when the
  bot cannot be created and otherwise returns whether the message was sent.
  \<open>moltbook.client.send_dm\<close> and \<open>post_edge_alert\<close> catch every exception and
  return a bool that the orchestrator uses for console output only, so their answers
  are left out.
\<close>

record responses =
  r_analysis :: "exn + EdgeAnalysis"
  r_now :: string
  r_telegram :: "exn + bool"

text \<open>
  What a run does to the outside, in order. The number is the index \<open>i\<close> of the
  market in the batch; \<open>Sleep\<close> is \<open>time.sleep\<close> with its seconds.
\<close>

datatype event =
    Analyze nat
  | AddTrade nat
  | DirectMessage nat string
  | Telegram nat EdgeAnalysis
  | MoltbookPost nat EdgeAnalysis
  | Sleep nat


record scan_state =
  s_file :: portfolio_file
  s_log :: "event list"
  s_alerts_sent :: int

definition emit :: "event \<Rightarrow> scan_state \<Rightarrow> scan_state" where
  "emit ev st = st\<lparr>s_log := s_log st @ [ev]\<rparr>"

text \<open>
  Lines 41 to 54: \<open>moltbook_post\<close> and \<open>moltbook_dm\<close> are both set when
  \<open>post_to_moltbook or ask_peer\<close> holds and the import succeeds.
\<close>

definition ask_peer_set :: "scan_config \<Rightarrow> bool" where
  "ask_peer_set cfg = (case c_ask_peer cfg of None \<Rightarrow> False | Some name \<Rightarrow> name \<noteq> [])"

definition moltbook_loaded :: "scan_config \<Rightarrow> bool" where
  "moltbook_loaded cfg = ((c_post_to_moltbook cfg \<or> ask_peer_set cfg) \<and> c_moltbook_import_ok cfg)"

text \<open>
  The body of the \<open>try\<close> statement for the market at index \<open>i\<close> (lines 63 to 110).
  The first component is the exception that reaches the \<open>except Exception\<close> clause,
  if any.
\<close>

definition process_market ::
  "scan_config \<Rightarrow> nat \<Rightarrow> Market \<times> responses \<Rightarrow> scan_state \<Rightarrow> exn option \<times> scan_state" where
  "process_market cfg i item st =
     (let market = fst item; r = snd item; st1 = emit (Analyze i) st in
      case r_analysis r of
        Inl e \<Rightarrow> (Some e, st1)
      | Inr analysis \<Rightarrow>
          if a_has_edge analysis \<and> a_confidence_score analysis \<ge> c_threshold cfg then
            (case add_trade market (a_recommended_position analysis) (a_confidence_score analysis)
                    (r_now r) (s_file st1) of
               (Inl e, file) \<Rightarrow> (Some e, (emit (AddTrade i) st1)\<lparr>s_file := file\<rparr>)
             | (Inr u, file) \<Rightarrow>
                 (let st2 = (emit (AddTrade i) st1)\<lparr>s_file := file\<rparr>;
                      st3 = (case c_ask_peer cfg of
                               None \<Rightarrow> st2
                             | Some name \<Rightarrow>
                                 if name \<noteq> [] \<and> moltbook_loaded cfg
                                 then emit (DirectMessage i name) st2 else st2)
                  in
                  case to_alert_message analysis of
                    Inl e \<Rightarrow> (Some e, st3)
                  | Inr message \<Rightarrow>
                      (case r_telegram r of
                         Inl e \<Rightarrow> (Some e, st3)
                       | Inr sent \<Rightarrow>
                           (let st4 = emit (Telegram i message) st3;
                                st5 = (if sent then st4\<lparr>s_alerts_sent := s_alerts_sent st4 + 1\<rparr>
                                       else st4);
                                st6 = (if moltbook_loaded cfg
                                       then emit (MoltbookPost i analysis) st5 else st5)
                            in (None, st6)))))
          else (None, st1))"

text \<open>
  The \<open>for i, market in enumerate(markets)\<close> loop; \<open>n\<close> is \<open>len(markets)\<close>. The
  \<open>except\<close> clause ends in \<open>continue\<close>; otherwise the loop body ends with
  \<open>if i < len(markets) - 1: time.sleep(6)\<close>.
\<close>

fun analyze_loop ::
  "scan_config \<Rightarrow> nat \<Rightarrow> nat \<Rightarrow> (Market \<times> responses) list \<Rightarrow> scan_state \<Rightarrow> scan_state" where
  "analyze_loop cfg n i [] st = st"
| "analyze_loop cfg n i (item # items) st =
     (case process_market cfg i item st of
        (Some e, st1) \<Rightarrow> analyze_loop cfg n (i + 1) items st1
      | (None, st1) \<Rightarrow>
          analyze_loop cfg n (i + 1) items
            (if int i < int n - 1 then emit (Sleep 6) st1 else st1))"

text \<open>
  \<open>analyze_and_alert(markets, ...)\<close>: the returned \<open>alerts_sent\<close>, with the ledger
  file and the log of the run.
\<close>

definition analyze_and_alert ::
  "scan_config \<Rightarrow> (Market \<times> responses) list \<Rightarrow> portfolio_file \<Rightarrow> int \<times> scan_state" where
  "analyze_and_alert cfg markets file =
     (let st = analyze_loop cfg (length markets) 0 markets
                 \<lparr>s_file = file, s_log = [], s_alerts_sent = 0\<rparr>
      in (s_alerts_sent st, st))"

section \<open>Library functions\<close>

text \<open>
  Functions of Python's library that read or write text, and the rounding of floats,
  are parameters of the model:
  \<^item> \<open>json.loads\<close> on a string: the exception it raises (\<open>JSONDecodeError\<close>, or
    another one such as \<open>RecursionError\<close> on deep nesting) or the value;
  \<^item> \<open>float\<close> on a string: a float, or \<open>None\<close> when it raises \<open>ValueError\<close>;
  \<^item> \<open>int\<close> on a string: \<open>None\<close> when it raises \<open>ValueError\<close>;
  \<^item> \<open>str\<close> on a value that is not a string, and \<open>str\<close> on an exception;
  \<^item> \<open>s.strip()\<close>, and the characters of a string, each as a string of its own;
  \<^item> \<open>round(price * 100, 1)\<close> as a function of the price.
\<close>

record pylib =
  json_loads :: "string \<Rightarrow> exn + pyval"
  float_of_str :: "string \<Rightarrow> pyval option"
  int_of_str :: "string \<Rightarrow> int option"
  str_of_value :: "pyval \<Rightarrow> string"
  str_of_exn :: "exn \<Rightarrow> string"
  str_strip :: "string \<Rightarrow> string"
  str_chars :: "string \<Rightarrow> string list"
  round_percent :: "real \<Rightarrow> real"

text \<open>
  \<open>float(v)\<close>. A float is returned as it is. A Python int converts unless it is too
  large for a double: the largest double is \<open>2 ^ 1024 - 2 ^ 971\<close>, and an int of
  magnitude \<open>2 ^ 1024 - 2 ^ 970\<close> or more raises \<open>OverflowError\<close>. A number of that
  magnitude is no float, so it is an int.
\<close>

definition py_float :: "pylib \<Rightarrow> pyval \<Rightarrow> exn + pyval" where
  "py_float L v =
     (case v of
        PNum r \<Rightarrow> (if \<bar>r\<bar> \<ge> 2 ^ 1024 - 2 ^ 970 then Inl OverflowError else Inr (PNum r))
      | PFloatSpecial f \<Rightarrow> Inr (PFloatSpecial f)
      | PBool b \<Rightarrow> Inr (PNum (if b then 1 else 0))
      | PStr s \<Rightarrow> (case float_of_str L s of None \<Rightarrow> Inl ValueError | Some f \<Rightarrow> Inr f)
      | _ \<Rightarrow> Inl TypeError)"

text \<open>
  \<open>int(v)\<close>: a number is truncated towards zero; an infinite float raises
  \<open>OverflowError\<close> and \<open>nan\<close> raises \<open>ValueError\<close>.
\<close>

definition py_int :: "pylib \<Rightarrow> pyval \<Rightarrow> exn + int" where
  "py_int L v =
     (case v of
        PNum r \<Rightarrow> Inr (if r \<ge> 0 then \<lfloor>r\<rfloor> else \<lceil>r\<rceil>)
      | PFloatSpecial f \<Rightarrow> (case f of NaN \<Rightarrow> Inl ValueError | _ \<Rightarrow> Inl OverflowError)
      | PBool b \<Rightarrow> Inr (if b then 1 else 0)
      | PStr s \<Rightarrow> (case int_of_str L s of None \<Rightarrow> Inl ValueError | Some n \<Rightarrow> Inr n)
      | _ \<Rightarrow> Inl TypeError)"

text \<open>\<open>str(v)\<close>.\<close>

definition py_str :: "pylib \<Rightarrow> pyval \<Rightarrow> string" where
  "py_str L v = (case v of PStr s \<Rightarrow> s | _ \<Rightarrow> str_of_value L v)"

text \<open>
  The values that \<open>for p in v\<close> runs through: the elements of a list, the characters
  of a string, the keys of a dict; any other value is not iterable.
\<close>

definition py_iter :: "pylib \<Rightarrow> pyval \<Rightarrow> exn + pyval list" where
  "py_iter L v =
     (case v of
        PList xs \<Rightarrow> Inr xs
      | PStr s \<Rightarrow> Inr (map PStr (str_chars L s))
      | PDict kvs \<Rightarrow> Inr (map (\<lambda>kv. PStr (fst kv)) kvs)
      | _ \<Rightarrow> Inl TypeError)"

text \<open>\<open>len(v)\<close>.\<close>

definition py_len :: "pylib \<Rightarrow> pyval \<Rightarrow> exn + nat" where
  "py_len L v =
     (case v of
        PList xs \<Rightarrow> Inr (length xs)
      | PStr s \<Rightarrow> Inr (length (str_chars L s))
      | PDict kvs \<Rightarrow> Inr (length kvs)
      | _ \<Rightarrow> Inl TypeError)"

section \<open>Market source (polymarket/fetcher.py)\<close>

text \<open>
  One element of the JSON array that the \<open>/markets\<close> endpoint returns: a JSON object.
  \<open>None\<close> is an absent key. The keys that the code copies into the \<open>Market\<close> as they
  are carry the declared types; the keys that it decodes or converts are dynamic.
\<close>

record listing =
  l_id :: "string option"
  l_question :: "string option"
  l_slug :: "string option"
  l_outcomePrices :: "pyval option"
  l_outcomes :: "pyval option"
  l_volume :: "pyval option"
  l_liquidity :: "pyval option"
  l_endDate :: "string option"
  l_description :: "string option"

text \<open>\<open>[float(p) for p in ps]\<close>: the first conversion that raises ends the comprehension.\<close>

fun float_each :: "pylib \<Rightarrow> pyval list \<Rightarrow> exn + pyval list" where
  "float_each L [] = Inr []"
| "float_each L (p # ps) =
     (case py_float L p of
        Inl e \<Rightarrow> Inl e
      | Inr f \<Rightarrow> (case float_each L ps of Inl e \<Rightarrow> Inl e | Inr fs \<Rightarrow> Inr (f # fs)))"

text \<open>Lines 83 to 89: the prices, from a JSON string or from a value that is no string.\<close>

definition parse_outcome_prices :: "pylib \<Rightarrow> pyval option \<Rightarrow> exn + pyval list" where
  "parse_outcome_prices L field =
     (let outcome_prices_str = (case field of None \<Rightarrow> PStr ''[]'' | Some v \<Rightarrow> v) in
      case outcome_prices_str of
        PStr s \<Rightarrow>
          (case json_loads L s of
             Inl e \<Rightarrow> Inl e
           | Inr decoded \<Rightarrow>
               (case py_iter L decoded of Inl e \<Rightarrow> Inl e | Inr ps \<Rightarrow> float_each L ps))
      | v \<Rightarrow> (case py_iter L v of Inl e \<Rightarrow> Inl e | Inr ps \<Rightarrow> float_each L ps))"

text \<open>Lines 92 to 97: the outcomes, decoded when they are a string and as they are otherwise.\<close>

definition parse_outcomes :: "pylib \<Rightarrow> pyval option \<Rightarrow> exn + pyval" where
  "parse_outcomes L field =
     (let outcomes_str = (case field of None \<Rightarrow> PStr ''[]'' | Some v \<Rightarrow> v) in
      case outcomes_str of
        PStr s \<Rightarrow> json_loads L s
      | v \<Rightarrow> Inr v)"

text \<open>The body of the \<open>try\<close> statement in \<open>get_active_markets\<close> (lines 82 to 109).\<close>

definition parse_listing :: "pylib \<Rightarrow> listing \<Rightarrow> exn + Market" where
  "parse_listing L item =
     (case parse_outcome_prices L (l_outcomePrices item) of
        Inl e \<Rightarrow> Inl e
      | Inr outcome_prices \<Rightarrow>
          (case parse_outcomes L (l_outcomes item) of
             Inl e \<Rightarrow> Inl e
           | Inr outcomes \<Rightarrow>
               (case py_float L (case l_volume item of None \<Rightarrow> PNum 0 | Some v \<Rightarrow> v) of
                  Inl e \<Rightarrow> Inl e
                | Inr volume \<Rightarrow>
                    (case py_float L (case l_liquidity item of None \<Rightarrow> PNum 0 | Some v \<Rightarrow> v) of
                       Inl e \<Rightarrow> Inl e
                     | Inr liquidity \<Rightarrow>
                         Inr \<lparr>m_id = (case l_id item of None \<Rightarrow> [] | Some s \<Rightarrow> s),
                              m_question = (case l_question item of None \<Rightarrow> ''Unknown'' | Some s \<Rightarrow> s),
                              m_slug = (case l_slug item of None \<Rightarrow> [] | Some s \<Rightarrow> s),
                              m_outcome_prices = PList outcome_prices,
                              m_outcomes = outcomes,
                              m_volume = volume,
                              m_liquidity = liquidity,
                              m_end_date = l_endDate item,
                              m_description = l_description item\<rparr>))))"

text \<open>
  \<open>except (ValueError, KeyError, TypeError)\<close>: the classes named and their subclass
  \<open>JSONDecodeError\<close>. Any other exception leaves the loop and the call.
\<close>

definition fetcher_catches :: "exn \<Rightarrow> bool" where
  "fetcher_catches e = (e = ValueError \<or> e = KeyError \<or> e = TypeError \<or> e = JSONDecodeError)"

text \<open>The loop \<open>for item in data\<close> with the list \<open>markets\<close> built so far.\<close>

fun markets_loop :: "pylib \<Rightarrow> listing list \<Rightarrow> Market list \<Rightarrow> exn + Market list" where
  "markets_loop L [] markets = Inr markets"
| "markets_loop L (item # items) markets =
     (case parse_listing L item of
        Inl e \<Rightarrow> (if fetcher_catches e then markets_loop L items markets else Inl e)
      | Inr market \<Rightarrow> markets_loop L items (markets @ [market]))"

text \<open>
  \<open>PolymarketFetcher.get_active_markets\<close>; \<open>response\<close> is what \<open>self._get\<close> raises
  or the array it returns.
\<close>

definition get_active_markets :: "pylib \<Rightarrow> exn + listing list \<Rightarrow> exn + Market list" where
  "get_active_markets L response =
     (case response of Inl e \<Rightarrow> Inl e | Inr data \<Rightarrow> markets_loop L data [])"

section \<open>Analyzers (analysis/gemini_analyzer.py)\<close>

text \<open>
  \<open>v[key]\<close> with a string key: the value of a dict, \<open>KeyError\<close> when the key is
  missing, and \<open>TypeError\<close> on every other value (a list or a string wants an integer
  index, the others cannot be subscripted).
\<close>

definition subscript_key :: "pyval \<Rightarrow> string \<Rightarrow> exn + pyval" where
  "subscript_key v key =
     (case v of
        PDict kvs \<Rightarrow> (case map_of kvs key of None \<Rightarrow> Inl KeyError | Some x \<Rightarrow> Inr x)
      | _ \<Rightarrow> Inl TypeError)"

text \<open>
  \<open>v[0]\<close>: the first element of a list, the first character of a string,
  \<open>IndexError\<close> when it is empty, \<open>KeyError\<close> on a dict (whose keys are strings),
  \<open>TypeError\<close> otherwise.
\<close>

definition subscript_first :: "pylib \<Rightarrow> pyval \<Rightarrow> exn + pyval" where
  "subscript_first L v =
     (case v of
        PList xs \<Rightarrow> (case xs of [] \<Rightarrow> Inl IndexError | x # _ \<Rightarrow> Inr x)
      | PStr s \<Rightarrow> (case str_chars L s of [] \<Rightarrow> Inl IndexError | c # _ \<Rightarrow> Inr (PStr c))
      | PDict kvs \<Rightarrow> Inl KeyError
      | _ \<Rightarrow> Inl TypeError)"

text \<open>\<open>v.strip()\<close>: only a string has the method.\<close>

definition py_strip :: "pylib \<Rightarrow> pyval \<Rightarrow> exn + string" where
  "py_strip L v = (case v of PStr s \<Rightarrow> Inr (str_strip L s) | _ \<Rightarrow> Inl AttributeError)"

text \<open>
  \<open>sep in s\<close> for strings. The separators of the code are ASCII, for which the
  search in the encoded strings is the search in the strings.
\<close>

fun contains :: "string \<Rightarrow> string \<Rightarrow> bool" where
  "contains sep [] = (sep = [])"
| "contains sep (c # cs) = (take (length sep) (c # cs) = sep \<or> contains sep cs)"

text \<open>
  \<open>s.split(sep)\<close> for a separator that is not empty, scanning from the left:
  \<open>skip\<close> counts the characters of a separator just found that are still to be passed
  over, \<open>piece\<close> is the current piece in reverse.
\<close>

fun split_scan :: "string \<Rightarrow> nat \<Rightarrow> string \<Rightarrow> string \<Rightarrow> string list" where
  "split_scan sep skip piece [] = [rev piece]"
| "split_scan sep skip piece (c # cs) =
     (if skip > 0 then split_scan sep (skip - 1) piece cs
      else if take (length sep) (c # cs) = sep then rev piece # split_scan sep (length sep - 1) [] cs
      else split_scan sep 0 (c # piece) cs)"

definition py_split :: "string \<Rightarrow> string \<Rightarrow> string list" where
  "py_split s sep = split_scan sep 0 [] s"

text \<open>\<open>xs[i]\<close> on a list.\<close>

definition list_item :: "'a list \<Rightarrow> nat \<Rightarrow> exn + 'a" where
  "list_item xs i = (if i < length xs then Inr (xs ! i) else Inl IndexError)"

text \<open>
  The extraction of the JSON text from a reply that wraps it in a Markdown fence
  (lines 149 to 152 and 236 to 239).
\<close>

definition fence_json :: string where
  "fence_json = ''```json''"

definition fence :: string where
  "fence = ''```''"

definition extract_json :: "string \<Rightarrow> exn + string" where
  "extract_json result_text =
     (if contains fence_json result_text then
        (case list_item (py_split result_text fence_json) 1 of
           Inl e \<Rightarrow> Inl e
         | Inr inner \<Rightarrow> list_item (py_split inner fence) 0)
      else if contains fence result_text then
        (case list_item (py_split result_text fence) 1 of
           Inl e \<Rightarrow> Inl e
         | Inr inner \<Rightarrow> list_item (py_split inner fence) 0)
      else Inr result_text)"

text \<open>\<open>d[k] = v\<close> on a dict: the value of an existing key is replaced in place, a new key goes last.\<close>

definition dict_set :: "('k \<times> 'v) list \<Rightarrow> 'k \<Rightarrow> 'v \<Rightarrow> ('k \<times> 'v) list" where
  "dict_set d k v =
     (if list_ex (\<lambda>kv. fst kv = k) d
      then map (\<lambda>kv. if fst kv = k then (k, v) else kv) d
      else d @ [(k, v)])"

text \<open>
  \<open>{outcome: round(price * 100, 1) for outcome, price in zip(outcomes, outcome_prices)}\<close>
\<close>

definition current_odds :: "pylib \<Rightarrow> string list \<Rightarrow> real list \<Rightarrow> (string \<times> real) list" where
  "current_odds L outcomes outcome_prices =
     fold (\<lambda>op d. dict_set d (fst op) (round_percent L (snd op))) (zip outcomes outcome_prices) []"

text \<open>
  The part of both \<open>analyze_market\<close> methods from the reply text to the analysis:
  extraction of the JSON text, \<open>json.loads\<close>, and the fields of the \<open>EdgeAnalysis\<close>
  in the order of the keyword arguments.
\<close>

definition analysis_of_text ::
  "pylib \<Rightarrow> string \<Rightarrow> string list \<Rightarrow> real list \<Rightarrow> string \<Rightarrow> exn + EdgeAnalysis" where
  "analysis_of_text L question outcomes outcome_prices result_text =
     (case extract_json result_text of
        Inl e \<Rightarrow> Inl e
      | Inr json_text \<Rightarrow>
          (case json_loads L json_text of
             Inl e \<Rightarrow> Inl e
           | Inr result \<Rightarrow>
               (case dict_get result (PStr ''confidence_score'') (PNum 5) of
                  Inl e \<Rightarrow> Inl e
                | Inr score \<Rightarrow>
                    (case py_int L score of
                       Inl e \<Rightarrow> Inl e
                     | Inr n \<Rightarrow>
                         (case dict_get result (PStr ''has_edge'') (PBool False) of
                            Inl e \<Rightarrow> Inl e
                          | Inr edge \<Rightarrow>
                              (case dict_get result (PStr ''reasoning'') (PStr ''Analysis failed'') of
                                 Inl e \<Rightarrow> Inl e
                               | Inr reasoning \<Rightarrow>
                                   (case dict_get result (PStr ''recommended_position'') PNone of
                                      Inl e \<Rightarrow> Inl e
                                    | Inr recommended \<Rightarrow>
                                        Inr \<lparr>a_market_question = question,
                                             a_confidence_score = min 10 (max 1 n),
                                             a_has_edge = truthy edge,
                                             a_reasoning = py_str L reasoning,
                                             a_recommended_position = recommended,
                                             a_current_odds =
                                               current_odds L outcomes outcome_prices\<rparr>)))))))"

text \<open>The analysis that the \<open>except\<close> clause of both methods returns.\<close>

definition failed_analysis ::
  "pylib \<Rightarrow> string \<Rightarrow> string list \<Rightarrow> real list \<Rightarrow> exn \<Rightarrow> EdgeAnalysis" where
  "failed_analysis L question outcomes outcome_prices e =
     \<lparr>a_market_question = question,
      a_confidence_score = 1,
      a_has_edge = False,
      a_reasoning = ''Analysis failed: '' @ str_of_exn L e,
      a_recommended_position = PNone,
      a_current_odds = current_odds L outcomes outcome_prices\<rparr>"

text \<open>
  \<open>OpenRouterAnalyzer.analyze_market\<close>, for a question, outcomes and prices of the
  declared types. \<open>reply\<close> is what \<open>requests.post\<close>, \<open>raise_for_status\<close> and
  \<open>response.json()\<close> raise, or the decoded body. The clause is
  \<open>except (json.JSONDecodeError, KeyError, TypeError, requests.RequestException)\<close>.
\<close>

definition openrouter_catches :: "exn \<Rightarrow> bool" where
  "openrouter_catches e =
     (e = JSONDecodeError \<or> e = KeyError \<or> e = TypeError \<or> e = RequestException)"

definition openrouter_try ::
  "pylib \<Rightarrow> string \<Rightarrow> string list \<Rightarrow> real list \<Rightarrow> exn + pyval \<Rightarrow> exn + EdgeAnalysis" where
  "openrouter_try L question outcomes outcome_prices reply =
     (case reply of
        Inl e \<Rightarrow> Inl e
      | Inr body \<Rightarrow>
          (case subscript_key body ''choices'' of
             Inl e \<Rightarrow> Inl e
           | Inr choices \<Rightarrow>
               (case subscript_first L choices of
                  Inl e \<Rightarrow> Inl e
                | Inr choice \<Rightarrow>
                    (case subscript_key choice ''message'' of
                       Inl e \<Rightarrow> Inl e
                     | Inr message \<Rightarrow>
                         (case subscript_key message ''content'' of
                            Inl e \<Rightarrow> Inl e
                          | Inr content \<Rightarrow>
                              (case py_strip L content of
                                 Inl e \<Rightarrow> Inl e
                               | Inr result_text \<Rightarrow>
                                   analysis_of_text L question outcomes outcome_prices
                                     result_text))))))"

definition openrouter_analyze_market ::
  "pylib \<Rightarrow> string \<Rightarrow> string list \<Rightarrow> real list \<Rightarrow> exn + pyval \<Rightarrow> exn + EdgeAnalysis" where
  "openrouter_analyze_market L question outcomes outcome_prices reply =
     (case openrouter_try L question outcomes outcome_prices reply of
        Inl e \<Rightarrow>
          (if openrouter_catches e
           then Inr (failed_analysis L question outcomes outcome_prices e) else Inl e)
      | Inr analysis \<Rightarrow> Inr analysis)"

text \<open>
  \<open>GeminiAnalyzer.analyze_market\<close>. \<open>reply\<close> is what
  \<open>self.model.generate_content(prompt)\<close> and \<open>response.text\<close> raise, or the text. The
  clause is \<open>except (json.JSONDecodeError, KeyError, TypeError)\<close>.
\<close>

definition gemini_catches :: "exn \<Rightarrow> bool" where
  "gemini_catches e = (e = JSONDecodeError \<or> e = KeyError \<or> e = TypeError)"

definition gemini_try ::
  "pylib \<Rightarrow> string \<Rightarrow> string list \<Rightarrow> real list \<Rightarrow> exn + string \<Rightarrow> exn + EdgeAnalysis" where
  "gemini_try L question outcomes outcome_prices reply =
     (case reply of
        Inl e \<Rightarrow> Inl e
      | Inr text \<Rightarrow>
          analysis_of_text L question outcomes outcome_prices (str_strip L text))"

definition gemini_analyze_market ::
  "pylib \<Rightarrow> string \<Rightarrow> string list \<Rightarrow> real list \<Rightarrow> exn + string \<Rightarrow> exn + EdgeAnalysis" where
  "gemini_analyze_market L question outcomes outcome_prices reply =
     (case gemini_try L question outcomes outcome_prices reply of
        Inl e \<Rightarrow>
          (if gemini_catches e
           then Inr (failed_analysis L question outcomes outcome_prices e) else Inl e)
      | Inr analysis \<Rightarrow> Inr analysis)"

section \<open>Example inputs\<close>

text \<open>
  A market as \<open>PolymarketFetcher.get_active_markets\<close> builds it, with the prices in a
  list, and the same market with the prices in a dict from outcome name to price, the
  shape that the comment in \<open>add_trade\<close> describes.
\<close>

definition market_listed :: Market where
  "market_listed =
     \<lparr>m_id = ''516710'', m_question = ''Will it rain tomorrow?'',
      m_slug = ''will-it-rain-tomorrow'',
      m_outcome_prices = PList [PNum (35 / 100), PNum (65 / 100)],
      m_outcomes = PList [PStr ''Yes'', PStr ''No''],
      m_volume = PNum 1000, m_liquidity = PNum 500, m_end_date = None,
      m_description = None\<rparr>"

definition market_dict :: Market where
  "market_dict =
     \<lparr>m_id = ''516710'', m_question = ''Will it rain tomorrow?'',
      m_slug = ''will-it-rain-tomorrow'',
      m_outcome_prices = PDict [(''Yes'', PNum (35 / 100)), (''No'', PNum (65 / 100))],
      m_outcomes = PList [PStr ''Yes'', PStr ''No''],
      m_volume = PNum 1000, m_liquidity = PNum 500, m_end_date = None,
      m_description = None\<rparr>"

definition trade_rain :: Trade where
  "trade_rain =
     \<lparr>t_id = ''516710'', t_question = ''Will it rain tomorrow?'', t_position = PStr ''Yes'',
      t_entry_price = PNum (35 / 100), t_confidence = 8, t_entry_date = ''2026-01-01T09:00:00'',
      t_status = ''open'', t_exit_price = None, t_pnl = None, t_resolved_date = None\<rparr>"

definition analysis_edge :: EdgeAnalysis where
  "analysis_edge =
     \<lparr>a_market_question = ''Will it rain tomorrow?'', a_confidence_score = 8, a_has_edge = True,
      a_reasoning = ''Forecasts disagree with the odds.'', a_recommended_position = PStr ''Yes'',
      a_current_odds = [(''Yes'', 35), (''No'', 65)]\<rparr>"

definition config_default :: scan_config where
  "config_default =
     \<lparr>c_threshold = MIN_CONFIDENCE_THRESHOLD None, c_post_to_moltbook = False,
      c_ask_peer = None, c_moltbook_import_ok = True\<rparr>"

definition answers_edge :: responses where
  "answers_edge =
     \<lparr>r_analysis = Inr analysis_edge, r_now = ''2026-01-01T09:00:00'', r_telegram = Inr True\<rparr>"

definition answers_raise :: responses where
  "answers_raise =
     \<lparr>r_analysis = Inl ValueError, r_now = ''2026-01-01T09:00:00'', r_telegram = Inr True\<rparr>"

definition answers_no_edge :: responses where
  "answers_no_edge =
     \<lparr>r_analysis = Inr (analysis_edge\<lparr>a_has_edge := False, a_confidence_score := 6\<rparr>),
      r_now = ''2026-01-01T09:00:00'', r_telegram = Inr True\<rparr>"

text \<open>
  An instance of the library functions for the examples below. It has the values of
  \<open>json.loads\<close> and \<open>float\<close> at the strings of the examples, which consult them at
  no other string: \<open>json.loads("not json")\<close> raises \<open>JSONDecodeError\<close>. The examples
  do not reach \<open>int\<close>, \<open>str\<close>, \<open>strip\<close>, the characters of a string or the
  rounding.
\<close>

definition example_lib :: pylib where
  "example_lib =
     \<lparr>json_loads = (\<lambda>s.
        case map_of
          [(''[\"Yes\", \"No\"]'', PList [PStr ''Yes'', PStr ''No'']),
           (''[\"0.5\"]'', PList [PStr ''0.5''])] s of
          None \<Rightarrow> Inl JSONDecodeError
        | Some v \<Rightarrow> Inr v),
      float_of_str = map_of [(''0.5'', PNum (1 / 2)), (''1000'', PNum 1000), (''500'', PNum 500)],
      int_of_str = map_of [],
      str_of_value = (\<lambda>v. []),
      str_of_exn = (\<lambda>e. []),
      str_strip = (\<lambda>s. s),
      str_chars = (\<lambda>s. map (\<lambda>c. [c]) s),
      round_percent = (\<lambda>p. p * 100)\<rparr>"

text \<open>
  A listing in the format of the Gamma API, with two outcomes and one price, and the
  market that the fetcher builds from it.
\<close>

definition listing_mismatched :: listing where
  "listing_mismatched =
     \<lparr>l_id = Some ''516713'', l_question = Some ''Will it snow tomorrow?'',
      l_slug = Some ''will-it-snow-tomorrow'',
      l_outcomePrices = Some (PStr ''[\"0.5\"]''),
      l_outcomes = Some (PStr ''[\"Yes\", \"No\"]''),
      l_volume = Some (PStr ''1000''), l_liquidity = Some (PStr ''500''),
      l_endDate = None, l_description = None\<rparr>"

definition market_mismatched :: Market where
  "market_mismatched =
     \<lparr>m_id = ''516713'', m_question = ''Will it snow tomorrow?'',
      m_slug = ''will-it-snow-tomorrow'',
      m_outcome_prices = PList [PNum (1 / 2)],
      m_outcomes = PList [PStr ''Yes'', PStr ''No''],
      m_volume = PNum 1000, m_liquidity = PNum 500, m_end_date = None,
      m_description = None\<rparr>"

text \<open>
  The same listing with prices that are no JSON text, and with a volume that is the
  JSON integer \<open>10 ^ 309\<close>.
\<close>

definition listing_unparsable :: listing where
  "listing_unparsable = listing_mismatched\<lparr>l_outcomePrices := Some (PStr ''not json'')\<rparr>"

definition listing_overflow :: listing where
  "listing_overflow = listing_mismatched\<lparr>l_volume := Some (PNum (10 ^ 309))\<rparr>"

section \<open>Properties of the ledger\<close>

lemmas example_defs = market_listed_def market_dict_def trade_rain_def analysis_edge_def
  config_default_def answers_edge_def answers_raise_def answers_no_edge_def
  MIN_CONFIDENCE_THRESHOLD_def

lemmas run_defs = analyze_and_alert_def process_market_def add_trade_def load_portfolio_def
  save_portfolio_def dict_get_def to_alert_message_def emit_def moltbook_loaded_def
  ask_peer_set_def

text \<open>
  A market whose prices are a list, as every market of the fetcher has them, and no open
  trade in the ledger: the lookup \<open>market.outcome_prices.get(position, 0.5)\<close> raises
  \<open>AttributeError\<close> and the ledger stays as it was.
\<close>

lemma add_trade_list_prices:
  assumes "m_outcome_prices market = PList prices"
    and "\<not> list_ex (\<lambda>t. t_id t = m_id market)
             (filter (\<lambda>t. t_status t = ''open'') (load_portfolio file))"
  shows "add_trade market position confidence now file = (Inl AttributeError, file)"
  using assms by (simp add: add_trade_def dict_get_def)

text \<open>
  Claim C1, at a market of the fetcher: with an empty ledger, recording the position
  \<open>Yes\<close> on the listed market raises \<open>AttributeError\<close> and appends no trade, where
  the claim has the call return normally with one new open trade at the entry price
  0.35.
\<close>

theorem add_trade_listed_market_raises:
  "add_trade market_listed (PStr ''Yes'') 8 ''2026-01-01T09:00:00'' None =
     (Inl AttributeError, None)"
  by (simp add: add_trade_def market_listed_def load_portfolio_def dict_get_def)

text \<open>
  Claim C7, at a market of the fetcher: two calls of \<open>add_trade\<close> for the listed
  market, starting from an empty ledger. Both raise \<open>AttributeError\<close> (the defect
  shown for claim C1), no trade is created, and the ledger holds no open trade with the
  id of the market, where the claim has exactly one.
\<close>

theorem add_trade_twice_on_listed_market:
  "(case add_trade market_listed (PStr ''Yes'') 8 ''2026-01-01T09:00:00'' None of
      (first, file1) \<Rightarrow>
        (case add_trade market_listed (PStr ''Yes'') 8 ''2026-01-01T09:30:00'' file1 of
           (second, file2) \<Rightarrow>
             (first, second, file2,
              length (filter (\<lambda>t. t_id t = m_id market_listed \<and> t_status t = ''open'')
                        (load_portfolio file2))))) =
     (Inl AttributeError, Inl AttributeError, None, 0)"
  by (simp add: add_trade_def market_listed_def load_portfolio_def dict_get_def)

text \<open>
  The test for an open trade of the same market is as claim C7 describes it. A call
  appends a trade exactly when the ledger has no trade that is open and has the id of
  the market, provided that the price lookup does not raise; a trade of another market
  or a closed trade of the same market does not stop it.
\<close>

lemma add_trade_appends:
  assumes "\<not> list_ex (\<lambda>t. t_id t = m_id market \<and> t_status t = ''open'') (load_portfolio file)"
    and "dict_get (m_outcome_prices market) position (PNum (1 / 2)) = Inr price"
  shows "add_trade market position confidence now file =
           (Inr (), Some (load_portfolio file @
              [\<lparr>t_id = m_id market, t_question = m_question market, t_position = position,
                t_entry_price = price, t_confidence = confidence, t_entry_date = now,
                t_status = ''open'', t_exit_price = None, t_pnl = None,
                t_resolved_date = None\<rparr>]))"
proof -
  have "\<not> list_ex (\<lambda>t. t_id t = m_id market)
            (filter (\<lambda>t. t_status t = ''open'') (load_portfolio file))"
    using assms(1) by (auto simp: list_ex_iff)
  then show ?thesis
    using assms(2) by (simp add: add_trade_def save_portfolio_def)
qed

lemma add_trade_existing:
  assumes "t \<in> set (load_portfolio file)" and "t_id t = m_id market" and "t_status t = ''open''"
  shows "add_trade market position confidence now file = (Inr (), file)"
  using assms by (auto simp: add_trade_def Let_def list_ex_iff)

lemma add_trade_changed:
  assumes "add_trade market position confidence now file = (r, file1)" and "file1 \<noteq> file"
  shows "\<exists>t. load_portfolio file1 = load_portfolio file @ [t] \<and> t_id t = m_id market \<and>
             t_status t = ''open'' \<and>
             filter (\<lambda>t. t_id t = m_id market \<and> t_status t = ''open'') (load_portfolio file) = []"
  using assms
  by (auto simp: add_trade_def Let_def load_portfolio_def save_portfolio_def list_ex_iff
        filter_empty_conv split: if_splits sum.splits option.splits)

text \<open>
  Where a first call has created a trade, which takes prices in a dict, a second call
  for the same market id returns without writing and the ledger holds one open trade
  with that id.
\<close>

lemma add_trade_second_call:
  assumes first: "add_trade market position confidence now file = (r, file1)"
    and created: "file1 \<noteq> file"
    and same_id: "m_id market2 = m_id market"
  shows "add_trade market2 position2 confidence2 now2 file1 = (Inr (), file1) \<and>
         length (filter (\<lambda>t. t_id t = m_id market \<and> t_status t = ''open'')
                   (load_portfolio file1)) = 1"
proof -
  from add_trade_changed [OF first created] obtain t where
    t: "load_portfolio file1 = load_portfolio file @ [t]" "t_id t = m_id market"
       "t_status t = ''open''"
    and none: "filter (\<lambda>t. t_id t = m_id market \<and> t_status t = ''open'')
                 (load_portfolio file) = []"
    by blast
  have "t \<in> set (load_portfolio file1)" using t(1) by simp
  then have second: "add_trade market2 position2 confidence2 now2 file1 = (Inr (), file1)"
    using t(2,3) same_id by (simp add: add_trade_existing)
  have "length (filter (\<lambda>t. t_id t = m_id market \<and> t_status t = ''open'')
          (load_portfolio file1)) = 1"
    using t none by simp
  with second show ?thesis by simp
qed

lemma add_trade_twice_on_dict_market:
  "add_trade market_dict (PStr ''Yes'') 8 ''2026-01-01T09:00:00'' None =
     (Inr (), Some [trade_rain]) \<and>
   add_trade market_dict (PStr ''No'') 9 ''2026-01-01T09:30:00'' (Some [trade_rain]) =
     (Inr (), Some [trade_rain]) \<and>
   add_trade (market_dict\<lparr>m_id := ''516712''\<rparr>) (PStr ''No'') 9 ''2026-01-01T09:30:00''
       (Some [trade_rain]) =
     (Inr (), Some [trade_rain,
        \<lparr>t_id = ''516712'', t_question = ''Will it rain tomorrow?'', t_position = PStr ''No'',
         t_entry_price = PNum (65 / 100), t_confidence = 9, t_entry_date = ''2026-01-01T09:30:00'',
         t_status = ''open'', t_exit_price = None, t_pnl = None, t_resolved_date = None\<rparr>]) \<and>
   add_trade market_dict (PStr ''No'') 9 ''2026-01-01T09:30:00''
       (Some [trade_rain\<lparr>t_status := ''won''\<rparr>]) =
     (Inr (), Some [trade_rain\<lparr>t_status := ''won''\<rparr>,
        \<lparr>t_id = ''516710'', t_question = ''Will it rain tomorrow?'', t_position = PStr ''No'',
         t_entry_price = PNum (65 / 100), t_confidence = 9, t_entry_date = ''2026-01-01T09:30:00'',
         t_status = ''open'', t_exit_price = None, t_pnl = None, t_resolved_date = None\<rparr>])"
  by (simp add: add_trade_def market_dict_def trade_rain_def load_portfolio_def
        save_portfolio_def dict_get_def)

text \<open>
  Claim C10: whatever a call of \<open>add_trade\<close> returns or raises, the ledger afterwards
  is the ledger before, or the ledger before followed by one new trade with status
  \<open>open\<close> and no exit price, profit or resolution date. Every earlier trade is where
  it was, field by field.
\<close>

theorem add_trade_append_only:
  assumes "add_trade market position confidence now file = (r, file1)"
  shows "load_portfolio file1 = load_portfolio file \<or>
         (\<exists>t. load_portfolio file1 = load_portfolio file @ [t] \<and> t_status t = ''open'' \<and>
              t_exit_price t = None \<and> t_pnl t = None \<and> t_resolved_date t = None)"
  using assms
  by (auto simp: add_trade_def Let_def load_portfolio_def save_portfolio_def
        split: if_splits sum.splits)

theorem add_trade_append_only_witness:
  "add_trade (market_dict\<lparr>m_id := ''516712''\<rparr>) PNone 7 ''2026-01-02T10:00:00'' (Some [trade_rain]) =
     (Inr (), Some [trade_rain,
        \<lparr>t_id = ''516712'', t_question = ''Will it rain tomorrow?'', t_position = PNone,
         t_entry_price = PNum (1 / 2), t_confidence = 7, t_entry_date = ''2026-01-02T10:00:00'',
         t_status = ''open'', t_exit_price = None, t_pnl = None, t_resolved_date = None\<rparr>]) \<and>
   (load_portfolio (Some [trade_rain,
        \<lparr>t_id = ''516712'', t_question = ''Will it rain tomorrow?'', t_position = PNone,
         t_entry_price = PNum (1 / 2), t_confidence = 7, t_entry_date = ''2026-01-02T10:00:00'',
         t_status = ''open'', t_exit_price = None, t_pnl = None, t_resolved_date = None\<rparr>]) =
      load_portfolio (Some [trade_rain]) \<or>
    (\<exists>t. load_portfolio (Some [trade_rain,
        \<lparr>t_id = ''516712'', t_question = ''Will it rain tomorrow?'', t_position = PNone,
         t_entry_price = PNum (1 / 2), t_confidence = 7, t_entry_date = ''2026-01-02T10:00:00'',
         t_status = ''open'', t_exit_price = None, t_pnl = None, t_resolved_date = None\<rparr>]) =
        load_portfolio (Some [trade_rain]) @ [t] \<and> t_status t = ''open'' \<and>
        t_exit_price t = None \<and> t_pnl t = None \<and> t_resolved_date t = None))"
proof -
  have call: "add_trade (market_dict\<lparr>m_id := ''516712''\<rparr>) PNone 7 ''2026-01-02T10:00:00''
      (Some [trade_rain]) =
     (Inr (), Some [trade_rain,
        \<lparr>t_id = ''516712'', t_question = ''Will it rain tomorrow?'', t_position = PNone,
         t_entry_price = PNum (1 / 2), t_confidence = 7, t_entry_date = ''2026-01-02T10:00:00'',
         t_status = ''open'', t_exit_price = None, t_pnl = None, t_resolved_date = None\<rparr>])"
    by (simp add: add_trade_def market_dict_def trade_rain_def load_portfolio_def
          save_portfolio_def dict_get_def)
  from add_trade_append_only [OF call] call show ?thesis by simp
qed

text \<open>
  Claim C6, at the empty ledger (no file): the summary has six keys and \<open>wins\<close> is not
  among them, where the claim lists seven keys for every ledger. The return statement
  for a ledger without closed trades leaves the key out; the one for a ledger with
  closed trades has it.
\<close>

theorem summary_empty_ledger_has_no_wins:
  "get_performance_summary None =
     [(''total_trades'', PNum 0), (''open_trades'', PNum 0), (''closed_trades'', PNum 0),
      (''win_rate'', PNum 0), (''total_pnl'', PNum 0), (''roi'', PNum 0)] \<and>
   map_of (get_performance_summary None) ''wins'' = None"
  by (simp add: get_performance_summary_def load_portfolio_def)

lemma summary_without_closed_trades:
  assumes "filter (\<lambda>t. t_status t \<noteq> ''open'') (load_portfolio file) = []"
  shows "map fst (get_performance_summary file) =
           [''total_trades'', ''open_trades'', ''closed_trades'', ''win_rate'', ''total_pnl'', ''roi'']"
    and "map_of (get_performance_summary file) ''win_rate'' = Some (PNum 0)"
    and "map_of (get_performance_summary file) ''total_pnl'' = Some (PNum 0)"
    and "map_of (get_performance_summary file) ''roi'' = Some (PNum 0)"
  using assms by (simp_all add: get_performance_summary_def Let_def)

lemma summary_with_closed_trades:
  assumes "filter (\<lambda>t. t_status t \<noteq> ''open'') (load_portfolio file) = settled" and "settled \<noteq> []"
  shows "map fst (get_performance_summary file) =
           [''total_trades'', ''open_trades'', ''closed_trades'', ''wins'', ''win_rate'',
            ''total_pnl'', ''roi'']"
    and "map_of (get_performance_summary file) ''win_rate'' =
           Some (PNum (of_nat (length (filter (\<lambda>t. t_status t = ''won'') settled)) /
                       of_nat (length settled) * 100))"
    and "map_of (get_performance_summary file) ''total_pnl'' =
           Some (PNum (sum_list (concat (map (\<lambda>t. case t_pnl t of None \<Rightarrow> [] | Some p \<Rightarrow> [p]) settled))))"
    and "map_of (get_performance_summary file) ''roi'' =
           Some (PNum (sum_list (concat (map (\<lambda>t. case t_pnl t of None \<Rightarrow> [] | Some p \<Rightarrow> [p]) settled)) /
                       of_nat (length settled) * 100))"
proof -
  have invested: "sum_list (map (\<lambda>t. 1) settled) = (of_nat (length settled) :: real)"
    by (induction settled) simp_all
  have positive: "(of_nat (length settled) :: real) > 0"
    using assms(2) by simp
  show "map fst (get_performance_summary file) =
           [''total_trades'', ''open_trades'', ''closed_trades'', ''wins'', ''win_rate'',
            ''total_pnl'', ''roi'']"
    using assms by (simp add: get_performance_summary_def Let_def)
  show "map_of (get_performance_summary file) ''win_rate'' =
           Some (PNum (of_nat (length (filter (\<lambda>t. t_status t = ''won'') settled)) /
                       of_nat (length settled) * 100))"
    using assms by (simp add: get_performance_summary_def Let_def)
  show "map_of (get_performance_summary file) ''total_pnl'' =
           Some (PNum (sum_list (concat (map (\<lambda>t. case t_pnl t of None \<Rightarrow> [] | Some p \<Rightarrow> [p]) settled))))"
    using assms by (simp add: get_performance_summary_def Let_def)
  show "map_of (get_performance_summary file) ''roi'' =
           Some (PNum (sum_list (concat (map (\<lambda>t. case t_pnl t of None \<Rightarrow> [] | Some p \<Rightarrow> [p]) settled)) /
                       of_nat (length settled) * 100))"
    using assms positive by (simp add: get_performance_summary_def Let_def invested)
qed

section \<open>Properties of the orchestrator\<close>

lemma emit_simps [simp]:
  "s_log (emit ev st) = s_log st @ [ev]"
  "s_file (emit ev st) = s_file st"
  "s_alerts_sent (emit ev st) = s_alerts_sent st"
  by (simp_all add: emit_def)













text \<open>
  Claim C4, at a market of the fetcher: the analysis has an edge with confidence 8, the
  threshold is the default 7, and the Telegram channel would accept the message. The
  record step raises \<open>AttributeError\<close> (the defect of \<open>add_trade\<close> shown for claim
  C1), the \<open>except\<close> clause catches it, and the run ends with no ledger entry, no
  Telegram message and the count 0, where the claim has a trade recorded and the
  notifications sent.
\<close>

theorem alert_worthy_listed_market_not_alerted:
  "analyze_and_alert config_default [(market_listed, answers_edge)] None =
     (0, \<lparr>s_file = None, s_log = [Analyze 0, AddTrade 0], s_alerts_sent = 0\<rparr>)"
  by (simp add: run_defs example_defs)

text \<open>
  The direction of claim C4 that the code keeps: a market whose analysis is below the
  threshold or has no edge is analysed and nothing else happens.
\<close>

lemma not_alert_worthy_no_effects:
  assumes "r_analysis r = Inr a" and "\<not> (a_has_edge a \<and> c_threshold cfg \<le> a_confidence_score a)"
  shows "process_market cfg i (market, r) st = (None, emit (Analyze i) st)"
  using assms by (auto simp: process_market_def Let_def)

text \<open>
  Claim C5, at a batch of two markets: when the analyzer raises for the first, the
  second is analysed with no pause in between, where the claim has the pause after
  every market but the last, also after a caught exception. The \<open>except\<close> clause ends
  in \<open>continue\<close>, which skips the \<open>time.sleep(6)\<close> at the end of the loop body.
  When the first market is processed without an exception, the pause is there.
\<close>

theorem no_sleep_after_caught_exception:
  "s_log (snd (analyze_and_alert config_default
      [(market_listed, answers_raise), (market_listed, answers_no_edge)] None)) =
     [Analyze 0, Analyze 1] \<and>
   s_log (snd (analyze_and_alert config_default
      [(market_listed, answers_no_edge), (market_listed, answers_no_edge)] None)) =
     [Analyze 0, Sleep 6, Analyze 1]"
  by (simp add: run_defs example_defs)

text \<open>
  Claim C9: for an alert-worthy market, the call of \<open>add_trade\<close> is the first effect
  after the analysis, before any Telegram message; and when \<open>add_trade\<close> raises, the
  exception reaches the \<open>except\<close> clause, nothing more is done for the market and
  \<open>alerts_sent\<close> keeps its value.
\<close>

theorem record_before_telegram:
  assumes "r_analysis r = Inr a" and "a_has_edge a" and "c_threshold cfg \<le> a_confidence_score a"
    and "process_market cfg i (market, r) st = (res, st1)"
  shows "(\<exists>evs. s_log st1 = s_log st @ Analyze i # AddTrade i # evs) \<and>
         (\<forall>e. fst (add_trade market (a_recommended_position a) (a_confidence_score a)
                     (r_now r) (s_file st)) = Inl e \<longrightarrow>
            res = Some e \<and> s_log st1 = s_log st @ [Analyze i, AddTrade i] \<and>
            s_alerts_sent st1 = s_alerts_sent st)"
  using assms
  by (auto simp: process_market_def Let_def split: sum.splits prod.splits option.splits if_splits)

theorem record_before_telegram_witness:
  "r_analysis answers_edge = Inr analysis_edge \<and> a_has_edge analysis_edge \<and>
   c_threshold config_default \<le> a_confidence_score analysis_edge \<and>
   process_market config_default 0 (market_listed, answers_edge)
       \<lparr>s_file = None, s_log = [], s_alerts_sent = 0\<rparr> =
     (Some AttributeError, \<lparr>s_file = None, s_log = [Analyze 0, AddTrade 0], s_alerts_sent = 0\<rparr>) \<and>
   fst (add_trade market_listed (a_recommended_position analysis_edge)
          (a_confidence_score analysis_edge) (r_now answers_edge) None) = Inl AttributeError \<and>
   process_market config_default 0 (market_dict, answers_edge)
       \<lparr>s_file = None, s_log = [], s_alerts_sent = 0\<rparr> =
     (None, \<lparr>s_file = Some [trade_rain],
             s_log = [Analyze 0, AddTrade 0, Telegram 0 analysis_edge], s_alerts_sent = 1\<rparr>)"
proof -
  have h1: "r_analysis answers_edge = Inr analysis_edge" by (simp add: answers_edge_def)
  have h2: "a_has_edge analysis_edge" by (simp add: analysis_edge_def)
  have h3: "c_threshold config_default \<le> a_confidence_score analysis_edge"
    by (simp add: example_defs)
  have h4: "process_market config_default 0 (market_listed, answers_edge)
       \<lparr>s_file = None, s_log = [], s_alerts_sent = 0\<rparr> =
     (Some AttributeError, \<lparr>s_file = None, s_log = [Analyze 0, AddTrade 0], s_alerts_sent = 0\<rparr>)"
    by (simp add: run_defs example_defs)
  have raises: "fst (add_trade market_listed (a_recommended_position analysis_edge)
          (a_confidence_score analysis_edge) (r_now answers_edge) None) = Inl AttributeError"
    by (simp add: run_defs example_defs)
  have other: "process_market config_default 0 (market_dict, answers_edge)
       \<lparr>s_file = None, s_log = [], s_alerts_sent = 0\<rparr> =
     (None, \<lparr>s_file = Some [trade_rain],
             s_log = [Analyze 0, AddTrade 0, Telegram 0 analysis_edge], s_alerts_sent = 1\<rparr>)"
    by (simp add: run_defs example_defs)
  from record_before_telegram [OF h1 h2 h3 h4] h1 h2 h3 h4 raises other
  show ?thesis by simp
qed

section \<open>Properties of the market source\<close>

lemmas fetch_defs = get_active_markets_def parse_listing_def parse_outcome_prices_def
  parse_outcomes_def py_float_def py_iter_def fetcher_catches_def

lemmas listing_defs = example_lib_def listing_mismatched_def market_mismatched_def
  listing_unparsable_def listing_overflow_def

text \<open>
  Claim C2 as stated fails: the listing with two outcomes and one price is parsed
  without an exception and is in the returned batch, with lists of lengths 2 and 1.
\<close>

theorem mismatched_listing_is_returned:
  "get_active_markets example_lib (Inr [listing_mismatched]) = Inr [market_mismatched] \<and>
   py_len example_lib (m_outcomes market_mismatched) = Inr 2 \<and>
   py_len example_lib (m_outcome_prices market_mismatched) = Inr 1"
  by (simp add: fetch_defs listing_defs py_len_def)

lemma py_float_error:
  "py_float L v = Inl e \<Longrightarrow> e = ValueError \<or> e = TypeError \<or> e = OverflowError"
  by (auto simp: py_float_def split: pyval.splits option.splits if_splits)

lemma float_each_error:
  "float_each L ps = Inl e \<Longrightarrow> e = ValueError \<or> e = TypeError \<or> e = OverflowError"
  by (induction ps) (auto split: sum.splits dest: py_float_error)

lemma py_iter_error: "py_iter L v = Inl e \<Longrightarrow> e = TypeError"
  by (auto simp: py_iter_def split: pyval.splits)

lemma parse_outcome_prices_error:
  "parse_outcome_prices L field = Inl e \<Longrightarrow>
   e = ValueError \<or> e = TypeError \<or> e = OverflowError \<or> (\<exists>s. json_loads L s = Inl e)"
  by (auto simp: parse_outcome_prices_def Let_def split: pyval.splits option.splits sum.splits
        dest: float_each_error py_iter_error)

lemma parse_outcomes_error: "parse_outcomes L field = Inl e \<Longrightarrow> \<exists>s. json_loads L s = Inl e"
  by (auto simp: parse_outcomes_def Let_def split: pyval.splits option.splits)

text \<open>
  The exceptions of the \<open>try\<close> body: those that the \<open>except\<close> clause catches,
  \<open>OverflowError\<close> from \<open>float\<close>, and whatever \<open>json.loads\<close> raises.
\<close>

lemma parse_listing_error:
  assumes "parse_listing L item = Inl e"
  shows "fetcher_catches e \<or> e = OverflowError \<or> (\<exists>s. json_loads L s = Inl e)"
  using assms
  by (auto simp: parse_listing_def fetcher_catches_def split: sum.splits
        dest: parse_outcome_prices_error parse_outcomes_error py_float_error)

lemma markets_loop_all_caught:
  assumes "\<forall>item\<in>set data. \<forall>e. parse_listing L item = Inl e \<longrightarrow> fetcher_catches e"
  shows "markets_loop L data markets =
     Inr (markets @ concat (map (\<lambda>item. case parse_listing L item of
                                          Inl e \<Rightarrow> [] | Inr market \<Rightarrow> [market]) data))"
  using assms by (induction data arbitrary: markets) (auto split: sum.splits)

lemma markets_loop_append:
  assumes "\<forall>item\<in>set before. \<forall>e. parse_listing L item = Inl e \<longrightarrow> fetcher_catches e"
  shows "markets_loop L (before @ rest) markets =
     markets_loop L rest (markets @ concat (map (\<lambda>item. case parse_listing L item of
                                          Inl e \<Rightarrow> [] | Inr market \<Rightarrow> [market]) before))"
  using assms by (induction before arbitrary: markets) (auto split: sum.splits)

lemma markets_loop_raises:
  assumes "\<forall>item\<in>set before. \<forall>e. parse_listing L item = Inl e \<longrightarrow> fetcher_catches e"
    and "parse_listing L item = Inl e" and "\<not> fetcher_catches e"
  shows "markets_loop L (before @ item # after) markets = Inl e"
  using assms(2,3) by (simp add: markets_loop_append [OF assms(1)])

text \<open>
  Claim C2 as amended. \<open>get_active_markets\<close> compares no lengths. For every array
  of listings that the endpoint returns:
  \<^item> when every exception that the parsing of a listing raises is a \<open>ValueError\<close>,
    \<open>KeyError\<close> or \<open>TypeError\<close>, the call returns, in order, the markets of exactly
    the listings whose parsing raises nothing;
  \<^item> the first listing whose parsing raises another exception makes the call raise
    it, and such an exception is an \<open>OverflowError\<close> (\<open>float\<close> of an integer beyond
    the range of a double) or an exception of \<open>json.loads\<close>;
  \<^item> a listing whose prices, outcomes, volume and liquidity convert parses to the
    market with these prices and outcomes, whatever the lengths of the two lists.
\<close>

theorem listings_excluded_on_parse_errors_only:
  "((\<forall>item\<in>set data. \<forall>e. parse_listing L item = Inl e \<longrightarrow> fetcher_catches e) \<longrightarrow>
      get_active_markets L (Inr data) =
        Inr (concat (map (\<lambda>item. case parse_listing L item of
                                   Inl e \<Rightarrow> [] | Inr market \<Rightarrow> [market]) data))) \<and>
   ((\<forall>item\<in>set before. \<forall>e. parse_listing L item = Inl e \<longrightarrow> fetcher_catches e) \<and>
    parse_listing L raising = Inl e \<and> \<not> fetcher_catches e \<longrightarrow>
      get_active_markets L (Inr (before @ raising # after)) = Inl e) \<and>
   (parse_listing L raising = Inl e \<longrightarrow>
      fetcher_catches e \<or> e = OverflowError \<or> (\<exists>s. json_loads L s = Inl e)) \<and>
   (parse_outcome_prices L (l_outcomePrices item) = Inr prices \<and>
    parse_outcomes L (l_outcomes item) = Inr outcomes \<and>
    py_float L (case l_volume item of None \<Rightarrow> PNum 0 | Some v \<Rightarrow> v) = Inr volume \<and>
    py_float L (case l_liquidity item of None \<Rightarrow> PNum 0 | Some v \<Rightarrow> v) = Inr liquidity \<longrightarrow>
      parse_listing L item =
        Inr \<lparr>m_id = (case l_id item of None \<Rightarrow> [] | Some s \<Rightarrow> s),
             m_question = (case l_question item of None \<Rightarrow> ''Unknown'' | Some s \<Rightarrow> s),
             m_slug = (case l_slug item of None \<Rightarrow> [] | Some s \<Rightarrow> s),
             m_outcome_prices = PList prices,
             m_outcomes = outcomes,
             m_volume = volume, m_liquidity = liquidity,
             m_end_date = l_endDate item, m_description = l_description item\<rparr>)"
proof -
  have returned: "get_active_markets L (Inr data) =
        Inr (concat (map (\<lambda>item. case parse_listing L item of
                                   Inl e \<Rightarrow> [] | Inr market \<Rightarrow> [market]) data))"
    if "\<forall>item\<in>set data. \<forall>e. parse_listing L item = Inl e \<longrightarrow> fetcher_catches e"
    using markets_loop_all_caught [OF that, of "[]"] by (simp add: get_active_markets_def)
  have raised: "get_active_markets L (Inr (before @ raising # after)) = Inl e"
    if "\<forall>item\<in>set before. \<forall>e. parse_listing L item = Inl e \<longrightarrow> fetcher_catches e"
      and "parse_listing L raising = Inl e" and "\<not> fetcher_catches e"
    using markets_loop_raises [OF that, of after "[]"] by (simp add: get_active_markets_def)
  have classes: "fetcher_catches e \<or> e = OverflowError \<or> (\<exists>s. json_loads L s = Inl e)"
    if "parse_listing L raising = Inl e"
    using parse_listing_error [OF that] .
  have parsed: "parse_listing L item =
        Inr \<lparr>m_id = (case l_id item of None \<Rightarrow> [] | Some s \<Rightarrow> s),
             m_question = (case l_question item of None \<Rightarrow> ''Unknown'' | Some s \<Rightarrow> s),
             m_slug = (case l_slug item of None \<Rightarrow> [] | Some s \<Rightarrow> s),
             m_outcome_prices = PList prices,
             m_outcomes = outcomes,
             m_volume = volume, m_liquidity = liquidity,
             m_end_date = l_endDate item, m_description = l_description item\<rparr>"
    if "parse_outcome_prices L (l_outcomePrices item) = Inr prices"
      and "parse_outcomes L (l_outcomes item) = Inr outcomes"
      and "py_float L (case l_volume item of None \<Rightarrow> PNum 0 | Some v \<Rightarrow> v) = Inr volume"
      and "py_float L (case l_liquidity item of None \<Rightarrow> PNum 0 | Some v \<Rightarrow> v) = Inr liquidity"
    using that by (simp add: parse_listing_def)
  from returned raised classes parsed show ?thesis by blast
qed

theorem listings_excluded_on_parse_errors_only_witness:
  "parse_listing example_lib listing_unparsable = Inl JSONDecodeError \<and>
   fetcher_catches JSONDecodeError \<and>
   parse_listing example_lib listing_mismatched = Inr market_mismatched \<and>
   get_active_markets example_lib (Inr [listing_unparsable, listing_mismatched]) =
     Inr [market_mismatched] \<and>
   parse_listing example_lib listing_overflow = Inl OverflowError \<and>
   \<not> fetcher_catches OverflowError \<and>
   get_active_markets example_lib (Inr [listing_mismatched, listing_overflow, listing_mismatched]) =
     Inl OverflowError \<and>
   parse_outcome_prices example_lib (l_outcomePrices listing_mismatched) = Inr [PNum (1 / 2)] \<and>
   parse_outcomes example_lib (l_outcomes listing_mismatched) =
     Inr (PList [PStr ''Yes'', PStr ''No'']) \<and>
   py_float example_lib (case l_volume listing_mismatched of None \<Rightarrow> PNum 0 | Some v \<Rightarrow> v) =
     Inr (PNum 1000) \<and>
   py_float example_lib (case l_liquidity listing_mismatched of None \<Rightarrow> PNum 0 | Some v \<Rightarrow> v) =
     Inr (PNum 500)"
proof -
  have unparsable: "parse_listing example_lib listing_unparsable = Inl JSONDecodeError"
    by (simp add: fetch_defs listing_defs)
  have overflow: "parse_listing example_lib listing_overflow = Inl OverflowError"
    by (simp add: fetch_defs listing_defs)
  have prices: "parse_outcome_prices example_lib (l_outcomePrices listing_mismatched) =
      Inr [PNum (1 / 2)]"
    by (simp add: fetch_defs listing_defs)
  have outcomes: "parse_outcomes example_lib (l_outcomes listing_mismatched) =
      Inr (PList [PStr ''Yes'', PStr ''No''])"
    by (simp add: fetch_defs listing_defs)
  have volume: "py_float example_lib
      (case l_volume listing_mismatched of None \<Rightarrow> PNum 0 | Some v \<Rightarrow> v) = Inr (PNum 1000)"
    by (simp add: fetch_defs listing_defs)
  have liquidity: "py_float example_lib
      (case l_liquidity listing_mismatched of None \<Rightarrow> PNum 0 | Some v \<Rightarrow> v) = Inr (PNum 500)"
    by (simp add: fetch_defs listing_defs)
  have caught: "fetcher_catches JSONDecodeError" and escapes: "\<not> fetcher_catches OverflowError"
    by (simp_all add: fetcher_catches_def)
  note claim = listings_excluded_on_parse_errors_only
    [where L = example_lib and data = "[listing_unparsable, listing_mismatched]"
       and before = "[listing_mismatched]" and raising = listing_overflow
       and e = OverflowError and after = "[listing_mismatched]" and item = listing_mismatched
       and prices = "[PNum (1 / 2)]" and outcomes = "PList [PStr ''Yes'', PStr ''No'']"
       and volume = "PNum 1000" and liquidity = "PNum 500"]
  from claim prices outcomes volume liquidity
  have mismatched: "parse_listing example_lib listing_mismatched = Inr market_mismatched"
    by (simp add: listing_mismatched_def market_mismatched_def)
  from claim unparsable mismatched caught
  have returned: "get_active_markets example_lib (Inr [listing_unparsable, listing_mismatched]) =
      Inr [market_mismatched]"
    by simp
  from claim overflow mismatched escapes
  have raised: "get_active_markets example_lib
      (Inr [listing_mismatched, listing_overflow, listing_mismatched]) = Inl OverflowError"
    by simp
  from unparsable caught mismatched returned overflow escapes raised prices outcomes volume
    liquidity
  show ?thesis by simp
qed

section \<open>Properties of the analyzers\<close>

lemmas analyzer_defs = openrouter_analyze_market_def openrouter_try_def openrouter_catches_def
  gemini_analyze_market_def gemini_try_def gemini_catches_def subscript_key_def
  subscript_first_def py_strip_def

text \<open>
  Claim C3, at two failures of the analyze call. A reply of OpenRouter whose list of
  choices is empty is a malformed response: \<open>response.json()["choices"][0]\<close> raises
  \<open>IndexError\<close>, which the \<open>except\<close> clause does not name, so the exception leaves
  \<open>analyze_market\<close>. A failure of the Gemini call itself (for instance a network
  error) leaves \<open>GeminiAnalyzer.analyze_market\<close> in the same way, while
  \<open>OpenRouterAnalyzer.analyze_market\<close> turns the \<open>RequestException\<close> of its call into
  the analysis with confidence 1 and no edge.
\<close>

theorem analyzer_failures_propagate:
  "openrouter_analyze_market L question outcomes outcome_prices
     (Inr (PDict [(''choices'', PList [])])) = Inl IndexError \<and>
   gemini_analyze_market L question outcomes outcome_prices (Inl OtherException) =
     Inl OtherException \<and>
   openrouter_analyze_market L question outcomes outcome_prices (Inl RequestException) =
     Inr (failed_analysis L question outcomes outcome_prices RequestException)"
  by (simp add: analyzer_defs)

text \<open>
  A reply whose confidence score is not a number is a malformed response as well:
  \<open>int("high")\<close> raises \<open>ValueError\<close>, which neither clause names.
\<close>

lemma non_numeric_score_propagates:
  assumes "extract_json (str_strip L text) = Inr json_text"
    and "json_loads L json_text = Inr (PDict [(''confidence_score'', PStr ''high'')])"
    and "int_of_str L ''high'' = None"
  shows "gemini_analyze_market L question outcomes outcome_prices (Inr text) = Inl ValueError"
  using assms
  by (simp add: gemini_analyze_market_def gemini_try_def gemini_catches_def analysis_of_text_def
        dict_get_def py_int_def)

text \<open>The failures that the clauses name do become the analysis with confidence 1 and no edge.\<close>

lemma caught_failure_gives_synthetic_analysis:
  assumes "openrouter_try L question outcomes outcome_prices reply = Inl e"
    and "openrouter_catches e"
  shows "openrouter_analyze_market L question outcomes outcome_prices reply =
           Inr (failed_analysis L question outcomes outcome_prices e)"
    and "a_confidence_score (failed_analysis L question outcomes outcome_prices e) = 1"
    and "\<not> a_has_edge (failed_analysis L question outcomes outcome_prices e)"
  using assms by (simp_all add: openrouter_analyze_market_def failed_analysis_def)

text \<open>The extraction of the JSON text from a plain reply and from fenced replies.\<close>

lemma extract_json_examples:
  "extract_json ''{\"confidence_score\": \"high\"}'' = Inr ''{\"confidence_score\": \"high\"}''"
  "extract_json ''```json{\"a\": 1}``` done'' = Inr ''{\"a\": 1}''"
  "extract_json ''```{\"a\": 1}```'' = Inr ''{\"a\": 1}''"
  by (simp_all add: extract_json_def fence_json_def fence_def list_item_def py_split_def)

end
